theory Spec2Isabelle
  imports Main
begin

section \<open>JavaScript values, thrown values and promises\<close>

text \<open>
  The values that travel through \<^verbatim>\<open>index.js\<close>: bound statement arguments, driver results,
  record fields. Numbers are only carried around by the library and never computed on, so
  an integer payload stands for them. An array is a list of values. An object is given by
  two property lists: its own properties, in the order \<^verbatim>\<open>Reflect.ownKeys\<close> enumerates them,
  and the properties it inherits through its prototype chain, nearest prototype first.
  Property keys are strings (symbol keys are not represented) and properties hold values
  (accessor properties are not represented).
\<close>

datatype jsval =
    JUndefined
  | JNull
  | JBool bool
  | JNum int
  | JStr string
  | JArr "jsval list"
  | JObj "(string \<times> jsval) list" "(string \<times> jsval) list"

type_synonym props = "(string \<times> jsval) list"

datatype obj = Obj (own: props) (inherited: props)

text \<open>
  What a \<^verbatim>\<open>throw\<close> or a rejected promise carries: an instance of the class
  \<^verbatim>\<open>RollbackError\<close> of lines 3-9 with its message, a plain \<^verbatim>\<open>Error\<close> with its message, a
  \<^verbatim>\<open>TypeError\<close> raised by the language itself (its text is engine defined and left out),
  or any other thrown value.
\<close>

datatype exn =
    RollbackError string
  | Error string
  | TypeError
  | Thrown jsval

fun instanceof_RollbackError :: "exn \<Rightarrow> bool" where
  "instanceof_RollbackError (RollbackError message) = True"
| "instanceof_RollbackError err = False"

text \<open>
  A synchronous call either throws (\<open>Inl\<close>) or returns (\<open>Inr\<close>). A promise is modelled by
  the state it settles in; a promise that never settles is outside the model.
\<close>

datatype 'a promise = Resolved 'a | Rejected exn

fun then_promise :: "'a promise \<Rightarrow> ('a \<Rightarrow> exn + 'b) \<Rightarrow> 'b promise" where
  "then_promise (Resolved v) f = (case f v of Inl e \<Rightarrow> Rejected e | Inr w \<Rightarrow> Resolved w)"
| "then_promise (Rejected e) f = Rejected e"

text \<open>What \<^verbatim>\<open>await\<close> of a call sees as a raised error: a throw or a rejection.\<close>

fun raised :: "exn + 'a promise \<Rightarrow> exn option" where
  "raised (Inl e) = Some e"
| "raised (Inr (Rejected e)) = Some e"
| "raised (Inr (Resolved v)) = None"

section \<open>Sessions, the pool and the driver\<close>

text \<open>
  The pool and the driver are external. Their observable interaction with the library is
  recorded as a trace of events: a session checked out of the pool, a session released,
  a statement sent with \<^verbatim>\<open>conn.query(sql, args)\<close> (the argument list is \<open>None\<close> when the
  call passes none, as \<^verbatim>\<open>conn.query('BEGIN')\<close> does). The state every operation threads
  is this trace. The driver answers a statement with a promise that may depend on
  everything that happened before; the pool answers a checkout in the same way.
\<close>

type_synonym handle = nat

datatype event =
    Checkout handle
  | Release handle
  | Query handle string "jsval list option"

type_synonym trace = "event list"

type_synonym driver = "trace \<Rightarrow> handle \<Rightarrow> string \<Rightarrow> jsval list option \<Rightarrow> jsval promise"

type_synonym pool = "trace \<Rightarrow> handle promise"

definition conn_query ::
  "driver \<Rightarrow> handle \<Rightarrow> string \<Rightarrow> jsval list option \<Rightarrow> trace \<Rightarrow> jsval promise \<times> trace" where
  "conn_query drv h sql args tr = (drv tr h sql args, tr @ [Query h sql args])"

text \<open>How often a statement text was sent on a session, and how often it was released.\<close>

fun is_query :: "handle \<Rightarrow> string \<Rightarrow> event \<Rightarrow> bool" where
  "is_query h sql (Query h' sql' args) = (h' = h \<and> sql' = sql)"
| "is_query h sql ev = False"

definition issued :: "handle \<Rightarrow> string \<Rightarrow> trace \<Rightarrow> nat" where
  "issued h sql tr = length (filter (is_query h sql) tr)"

definition releases :: "handle \<Rightarrow> trace \<Rightarrow> nat" where
  "releases h tr = length (filter (\<lambda>ev. ev = Release h) tr)"

section \<open>Language primitives used by the library\<close>

text \<open>\<^verbatim>\<open>Array.prototype.join\<close> on an array of strings.\<close>

fun join :: "string \<Rightarrow> string list \<Rightarrow> string" where
  "join sep [] = []"
| "join sep [x] = x"
| "join sep (x # y # ys) = x @ sep @ join sep (y # ys)"

text \<open>
  \<^verbatim>\<open>Array.prototype.concat\<close>: an argument that is an array is spread by one level, any
  other argument is appended as it is.
\<close>

fun isArray :: "jsval \<Rightarrow> bool" where
  "isArray (JArr xs) = True"
| "isArray v = False"

fun spread :: "jsval \<Rightarrow> jsval list" where
  "spread (JArr xs) = xs"
| "spread v = [v]"

definition js_concat :: "jsval list \<Rightarrow> jsval list \<Rightarrow> jsval list" where
  "js_concat base items = base @ concat (map spread items)"

text \<open>
  \<^verbatim>\<open>Reflect.ownKeys(target)\<close> throws a \<^verbatim>\<open>TypeError\<close> when the target is not an object;
  \<open>None\<close> is the \<^verbatim>\<open>undefined\<close> that indexing past the end of an array gives.
\<close>

fun Reflect_ownKeys :: "obj option \<Rightarrow> exn + string list" where
  "Reflect_ownKeys None = Inl TypeError"
| "Reflect_ownKeys (Some info) = Inr (map fst (own info))"

text \<open>\<^verbatim>\<open>objects[0]\<close>.\<close>

fun first_object :: "obj list \<Rightarrow> obj option" where
  "first_object [] = None"
| "first_object (x # xs) = Some x"

text \<open>
  \<^verbatim>\<open>info[key]\<close> and \<^verbatim>\<open>info.id\<close>: the own property of that name, else the one found along
  the prototype chain, else \<^verbatim>\<open>undefined\<close>.
\<close>

definition get_field :: "obj \<Rightarrow> string \<Rightarrow> jsval" where
  "get_field info key =
     (case map_of (own info) key of
        Some v \<Rightarrow> v
      | None \<Rightarrow> (case map_of (inherited info) key of Some v \<Rightarrow> v | None \<Rightarrow> JUndefined))"

text \<open>
  Reading a property of a driver result header (\<^verbatim>\<open>.insertId\<close>, \<^verbatim>\<open>.affectedRows\<close>): a
  \<^verbatim>\<open>TypeError\<close> on \<^verbatim>\<open>undefined\<close> and \<^verbatim>\<open>null\<close>, the own or inherited property of an
  object, \<^verbatim>\<open>undefined\<close> on anything else.
\<close>

fun get_property :: "jsval \<Rightarrow> string \<Rightarrow> exn + jsval" where
  "get_property JUndefined key = Inl TypeError"
| "get_property JNull key = Inl TypeError"
| "get_property (JObj own_props inherited_props) key =
     Inr (get_field (Obj own_props inherited_props) key)"
| "get_property v key = Inr JUndefined"

text \<open>
  \<^verbatim>\<open>getInfo\<close> (lines 243-246): \<^verbatim>\<open>const [resultSetHeader, unknown] = result\<close> takes the
  first element of an iterable and throws a \<^verbatim>\<open>TypeError\<close> on a value that is not
  iterable.
\<close>

fun getInfo :: "jsval \<Rightarrow> exn + jsval" where
  "getInfo (JArr []) = Inr JUndefined"
| "getInfo (JArr (resultSetHeader # rest)) = Inr resultSetHeader"
| "getInfo (JStr []) = Inr JUndefined"
| "getInfo (JStr (c # rest)) = Inr (JStr [c])"
| "getInfo result = Inl TypeError"

section \<open>Connection\<close>

datatype Connection = Connection (conn: handle)

definition release :: "Connection \<Rightarrow> trace \<Rightarrow> trace" where
  "release this tr = tr @ [Release (conn this)]"

definition doInsert ::
  "driver \<Rightarrow> Connection \<Rightarrow> string \<Rightarrow> jsval list \<Rightarrow> trace \<Rightarrow> jsval promise \<times> trace" where
  "doInsert drv this sql args tr =
     (case conn_query drv (conn this) sql (Some args) tr of
        (p, tr') \<Rightarrow>
          (then_promise p
             (\<lambda>result. case getInfo result of
                          Inl e \<Rightarrow> Inl e
                        | Inr header \<Rightarrow> get_property header ''insertId''),
           tr'))"

definition doUpdate ::
  "driver \<Rightarrow> Connection \<Rightarrow> string \<Rightarrow> jsval list \<Rightarrow> trace \<Rightarrow> jsval promise \<times> trace" where
  "doUpdate drv this sql args tr =
     (case conn_query drv (conn this) sql (Some args) tr of
        (p, tr') \<Rightarrow>
          (then_promise p
             (\<lambda>result. case getInfo result of
                          Inl e \<Rightarrow> Inl e
                        | Inr header \<Rightarrow> get_property header ''affectedRows''),
           tr'))"

definition doBegin :: "driver \<Rightarrow> Connection \<Rightarrow> trace \<Rightarrow> jsval promise \<times> trace" where
  "doBegin drv this tr = conn_query drv (conn this) ''BEGIN'' None tr"

definition doCommit :: "driver \<Rightarrow> Connection \<Rightarrow> trace \<Rightarrow> jsval promise \<times> trace" where
  "doCommit drv this tr = conn_query drv (conn this) ''COMMIT'' None tr"

definition doRollback :: "driver \<Rightarrow> Connection \<Rightarrow> trace \<Rightarrow> jsval promise \<times> trace" where
  "doRollback drv this tr = conn_query drv (conn this) ''ROLLBACK'' None tr"

subsection \<open>doTransaction (lines 76-89)\<close>

text \<open>
  The unit of work is called with the connection as receiver; it may send statements on
  it, and it throws, or returns a promise (or a plain value, which \<^verbatim>\<open>await\<close> treats as a
  resolved promise).
\<close>

type_synonym unit_of_work = "Connection \<Rightarrow> trace \<Rightarrow> (exn + jsval promise) \<times> trace"

text \<open>The \<^verbatim>\<open>catch (err)\<close> block.\<close>

definition doTransaction_catch ::
  "driver \<Rightarrow> Connection \<Rightarrow> exn \<Rightarrow> trace \<Rightarrow> jsval promise \<times> trace" where
  "doTransaction_catch drv this err tr =
     (case doRollback drv this tr of
        (Rejected e, tr') \<Rightarrow> (Rejected e, tr')
      | (Resolved r, tr') \<Rightarrow>
          if \<not> instanceof_RollbackError err then (Rejected err, tr')
          else (Resolved JUndefined, tr'))"

definition doTransaction ::
  "driver \<Rightarrow> Connection \<Rightarrow> unit_of_work \<Rightarrow> trace \<Rightarrow> jsval promise \<times> trace" where
  "doTransaction drv this fn tr =
     (case doBegin drv this tr of
        (Rejected e, tr1) \<Rightarrow> (Rejected e, tr1)
      | (Resolved r, tr1) \<Rightarrow>
          (case fn this tr1 of
             (Inl err, tr2) \<Rightarrow> doTransaction_catch drv this err tr2
           | (Inr (Rejected err), tr2) \<Rightarrow> doTransaction_catch drv this err tr2
           | (Inr (Resolved res), tr2) \<Rightarrow>
               (case doCommit drv this tr2 of
                  (Rejected err, tr3) \<Rightarrow> doTransaction_catch drv this err tr3
                | (Resolved r', tr3) \<Rightarrow> (Resolved res, tr3))))"

subsection \<open>insertMany and insertManyObjects (lines 146-172)\<close>

text \<open>The two \<^verbatim>\<open>for\<close> loops of \<^verbatim>\<open>insertMany\<close>, with their counter \<open>i\<close> and bound \<open>n\<close>.\<close>

function placeholders_loop :: "nat \<Rightarrow> nat \<Rightarrow> string list \<Rightarrow> string list" where
  "placeholders_loop i n placeholders =
     (if i < n then placeholders_loop (i + 1) n (placeholders @ [''?'']) else placeholders)"
  by pat_completeness auto
termination
  by (relation "measure (\<lambda>(i, n, placeholders). n - i)") auto

function values_loop :: "nat \<Rightarrow> nat \<Rightarrow> string \<Rightarrow> string \<Rightarrow> string" where
  "values_loop i n vs sql =
     (if i < n
      then values_loop (i + 1) n vs ((if i > 0 then sql @ '', '' else sql) @ vs)
      else sql)"
  by pat_completeness auto
termination
  by (relation "measure (\<lambda>(i, n, vs, sql). n - i)") auto

text \<open>The loop equations unfold without end; they are applied one step at a time.\<close>

declare placeholders_loop.simps [simp del]

declare values_loop.simps [simp del]

definition insertMany ::
  "driver \<Rightarrow> Connection \<Rightarrow> string \<Rightarrow> string list \<Rightarrow> jsval list \<Rightarrow> trace
     \<Rightarrow> jsval promise \<times> trace" where
  "insertMany drv this table fields list tr =
     (let placeholders = placeholders_loop 0 (length fields) [];
          fs = ''('' @ join '', '' fields @ '')'';
          vs = ''('' @ join '', '' placeholders @ '')'';
          sql = values_loop 0 (length list) vs (''INSERT INTO '' @ table @ '' '' @ fs @ '' VALUES '');
          args = js_concat [] list
      in doInsert drv this sql args tr)"

definition insertManyObjects ::
  "driver \<Rightarrow> Connection \<Rightarrow> string \<Rightarrow> obj list \<Rightarrow> trace
     \<Rightarrow> (exn + jsval promise) \<times> trace" where
  "insertManyObjects drv this table objects tr =
     (case Reflect_ownKeys (first_object objects) of
        Inl e \<Rightarrow> (Inl e, tr)
      | Inr fields \<Rightarrow>
          (let list = map (\<lambda>obj. JArr (map (\<lambda>key. get_field obj key) fields)) objects
           in case insertMany drv this table fields list tr of
                (p, tr') \<Rightarrow> (Inr p, tr')))"

subsection \<open>updateOne, updateOneByFields and updateOneObject (lines 174-223)\<close>

definition updateOne ::
  "driver \<Rightarrow> Connection \<Rightarrow> string \<Rightarrow> jsval \<Rightarrow> string list \<Rightarrow> jsval list \<Rightarrow> trace
     \<Rightarrow> (exn + jsval promise) \<times> trace" where
  "updateOne drv this table idv fields values tr =
     (if length fields = 0 then (Inl (Error ''no fields to update''), tr)
      else if length values \<noteq> length fields
      then (Inl (Error ''values.length !== fields.length''), tr)
      else
        (let fs = join '', '' (map (\<lambda>field. field @ '' = ?'') fields);
             sql = ''UPDATE '' @ table @ '' SET '' @ fs @ '' WHERE id = ?'';
             args = js_concat values [idv]
         in case doUpdate drv this sql args tr of (p, tr') \<Rightarrow> (Inr p, tr')))"

definition updateOneByFields ::
  "driver \<Rightarrow> Connection \<Rightarrow> string \<Rightarrow> string list \<Rightarrow> jsval list \<Rightarrow> string list \<Rightarrow> jsval list
     \<Rightarrow> trace \<Rightarrow> (exn + jsval promise) \<times> trace" where
  "updateOneByFields drv this table fields values whereFields whereValues tr =
     (if length fields = 0 then (Inl (Error ''no fields to update''), tr)
      else if length values \<noteq> length fields
      then (Inl (Error ''values.length !== fields.length''), tr)
      else if length whereFields \<noteq> length whereValues
      then (Inl (Error ''where values.length !== where fields.length''), tr)
      else
        (let fs = join '', '' (map (\<lambda>field. field @ '' = ?'') fields);
             whereFs = join '' AND '' (map (\<lambda>field. field @ '' = ?'') whereFields);
             sql = ''update '' @ table @ '' set '' @ fs @ '' where '' @ whereFs;
             args = js_concat values [JArr whereValues]
         in case doUpdate drv this sql args tr of (p, tr') \<Rightarrow> (Inr p, tr')))"

text \<open>
  The \<^verbatim>\<open>for (let key of Reflect.ownKeys(info))\<close> loop of \<^verbatim>\<open>updateOneObject\<close>, and the
  test of line 216 that decides whether a key goes into the SET clause.
\<close>

definition settable :: "string \<Rightarrow> bool" where
  "settable key = (key \<noteq> ''id'' \<and> key \<noteq> ''ctime'' \<and> key \<noteq> ''mtime'')"

fun collect_fields ::
  "obj \<Rightarrow> string list \<Rightarrow> string list \<times> jsval list \<Rightarrow> string list \<times> jsval list" where
  "collect_fields info [] (fields, values) = (fields, values)"
| "collect_fields info (key # keys) (fields, values) =
     (if settable key
      then collect_fields info keys (fields @ [key], values @ [get_field info key])
      else collect_fields info keys (fields, values))"

definition updateOneObject ::
  "driver \<Rightarrow> Connection \<Rightarrow> string \<Rightarrow> obj \<Rightarrow> trace \<Rightarrow> (exn + jsval promise) \<times> trace" where
  "updateOneObject drv this table info tr =
     (case Reflect_ownKeys (Some info) of
        Inl e \<Rightarrow> (Inl e, tr)
      | Inr keys \<Rightarrow>
          (case collect_fields info keys ([], []) of
             (fields, values) \<Rightarrow>
               updateOne drv this table (get_field info ''id'') fields values tr))"

section \<open>Pool holder, scoped acquisition and the facade (lines 12-25, 248-299)\<close>

text \<open>
  The \<^verbatim>\<open>Pooler\<close> object has one mutable field \<^verbatim>\<open>pool\<close>, \<^verbatim>\<open>null\<close> until \<^verbatim>\<open>setPool\<close>; a
  \<^verbatim>\<open>Dbc\<close> has the one field \<^verbatim>\<open>Pooler\<close>. Both are passed in the state they have when the
  wrapped function is called.
\<close>

type_synonym Pooler = "pool option"

definition getPool :: "Pooler \<Rightarrow> exn + pool" where
  "getPool this =
     (case this of
        None \<Rightarrow> Inl (Error ''database not connected'')
      | Some p \<Rightarrow> Inr p)"

definition setPool :: "pool \<Rightarrow> Pooler \<Rightarrow> Pooler" where
  "setPool p this = Some p"

datatype Dbc = Dbc (Pooler: Pooler)

text \<open>\<^verbatim>\<open>static async new(pooler)\<close>: a throw of \<^verbatim>\<open>getPool\<close> rejects the returned promise.\<close>

definition Connection_new :: "Pooler \<Rightarrow> trace \<Rightarrow> Connection promise \<times> trace" where
  "Connection_new pooler tr =
     (case getPool pooler of
        Inl e \<Rightarrow> (Rejected e, tr)
      | Inr p \<Rightarrow>
          (case p tr of
             Rejected e \<Rightarrow> (Rejected e, tr)
           | Resolved h \<Rightarrow> (Resolved (Connection h), tr @ [Checkout h])))"

type_synonym conn_function =
  "Connection \<Rightarrow> jsval list \<Rightarrow> trace \<Rightarrow> (exn + jsval promise) \<times> trace"

text \<open>
  \<^verbatim>\<open>static async run(pooler, func, args)\<close>: the \<^verbatim>\<open>finally\<close> block runs after the awaited
  call has thrown, rejected or resolved, and leaves that outcome as the outcome of \<open>run\<close>.
\<close>

definition run :: "Pooler \<Rightarrow> conn_function \<Rightarrow> jsval list \<Rightarrow> trace \<Rightarrow> jsval promise \<times> trace" where
  "run pooler func args tr =
     (case Connection_new pooler tr of
        (Rejected e, tr1) \<Rightarrow> (Rejected e, tr1)
      | (Resolved c, tr1) \<Rightarrow>
          (case func c args tr1 of
             (out, tr2) \<Rightarrow>
               (case out of Inl e \<Rightarrow> Rejected e | Inr p \<Rightarrow> p, release c tr2)))"

definition withConnection ::
  "Dbc \<Rightarrow> conn_function \<Rightarrow> jsval list \<Rightarrow> trace \<Rightarrow> jsval promise \<times> trace" where
  "withConnection this fn = (let pooler = Pooler this in (\<lambda>args. run pooler fn args))"

section \<open>Concrete drivers, pools and callers\<close>

text \<open>
  A driver that accepts every statement, one on which \<^verbatim>\<open>ROLLBACK\<close> fails and one on which
  \<^verbatim>\<open>COMMIT\<close> fails (the link to the server is lost at that moment); a pool that hands out
  session 7.
\<close>

definition ok_result :: jsval where
  "ok_result =
     JArr [JObj [(''affectedRows'', JNum 1), (''insertId'', JNum 42)] [], JUndefined]"

definition drv_ok :: driver where
  "drv_ok tr h sql args = Resolved ok_result"

definition drv_rollback_fails :: driver where
  "drv_rollback_fails tr h sql args =
     (if sql = ''ROLLBACK'' then Rejected (Error ''Connection lost'') else Resolved ok_result)"

definition drv_commit_fails :: driver where
  "drv_commit_fails tr h sql args =
     (if sql = ''COMMIT'' then Rejected (Error ''Connection lost'') else Resolved ok_result)"

definition pool_7 :: pool where
  "pool_7 tr = Resolved 7"

text \<open>
  Units of work: one that throws the sentinel, one whose promise rejects with an ordinary
  error, one that resolves with the value 5; each first updates a row.
\<close>

definition touch_row :: "driver \<Rightarrow> Connection \<Rightarrow> trace \<Rightarrow> trace" where
  "touch_row drv this tr =
     snd (updateOne drv this ''t'' (JNum 1) [''name''] [JStr ''n''] tr)"

definition work_abort :: "driver \<Rightarrow> unit_of_work" where
  "work_abort drv this tr = (Inl (RollbackError ''abort''), touch_row drv this tr)"

definition work_fail :: "driver \<Rightarrow> unit_of_work" where
  "work_fail drv this tr = (Inr (Rejected (Error ''duplicate key'')), touch_row drv this tr)"

definition work_ok :: "driver \<Rightarrow> unit_of_work" where
  "work_ok drv this tr = (Inr (Resolved (JNum 5)), touch_row drv this tr)"

text \<open>Functions to wrap: one per way of leaving the wrapped call.\<close>

definition fn_resolves :: conn_function where
  "fn_resolves this args tr = (Inr (Resolved (JNum 5)), touch_row drv_ok this tr)"

definition fn_rejects :: conn_function where
  "fn_rejects this args tr = (Inr (Rejected (Error ''duplicate key'')), touch_row drv_ok this tr)"

definition fn_throws :: conn_function where
  "fn_throws this args tr = (Inl TypeError, tr)"

text \<open>An inner function that calls \<^verbatim>\<open>this.release()\<close> itself and then resolves.\<close>

definition fn_releases :: conn_function where
  "fn_releases this args tr = (Inr (Resolved JUndefined), release this tr)"

section \<open>The shape of the spec's table for an update by where-fields\<close>

text \<open>
  The row of the spec's table reads \<^verbatim>\<open>UPDATE T SET f1 = ?, ... WHERE w1 = ? AND ...\<close>. It is
  written here with the spelling \<open>kw\<close> of its three keywords as a parameter, to compare it
  with the text of line 206; \<open>lower_case\<close> turns the capital letters of a keyword into small
  ones.
\<close>

definition lower_char :: "char \<Rightarrow> char" where
  "lower_char c =
     (case map_of (zip ''ABCDEFGHIJKLMNOPQRSTUVWXYZ'' ''abcdefghijklmnopqrstuvwxyz'') c of
        None \<Rightarrow> c
      | Some d \<Rightarrow> d)"

definition lower_case :: "string \<Rightarrow> string" where
  "lower_case kw = map lower_char kw"

definition spec_update_by_fields_shape ::
  "(string \<Rightarrow> string) \<Rightarrow> string \<Rightarrow> string list \<Rightarrow> string list \<Rightarrow> string" where
  "spec_update_by_fields_shape kw T fs ws =
     kw ''UPDATE'' @ '' '' @ T @ '' '' @ kw ''SET'' @ '' '' @
       join '', '' (map (\<lambda>f. f @ '' = ?'') fs) @ '' '' @ kw ''WHERE'' @ '' '' @
       join '' AND '' (map (\<lambda>w. w @ '' = ?'') ws)"

section \<open>Auxiliary facts\<close>

subsection \<open>Statements sent and sessions released\<close>

lemma doUpdate_trace: "snd (doUpdate drv this sql args tr) = tr @ [Query (conn this) sql (Some args)]"
  by (simp add: doUpdate_def conn_query_def)

lemma doInsert_trace: "snd (doInsert drv this sql args tr) = tr @ [Query (conn this) sql (Some args)]"
  by (simp add: doInsert_def conn_query_def)

lemma issued_snoc:
  "issued h sql (tr @ [Query h' sql' args]) = issued h sql tr + (if h' = h \<and> sql' = sql then 1 else 0)"
  by (simp add: issued_def)

lemma issued_transaction:
  "issued h sql (Query h ''BEGIN'' None # evs @ [Query h sql' None]) =
     issued h sql evs + (if sql = ''BEGIN'' then 1 else 0) + (if sql' = sql then 1 else 0)"
  by (simp add: issued_def)

lemma releases_snoc: "releases h (tr @ [Release h]) = Suc (releases h tr)"
  by (simp add: releases_def)

subsection \<open>The loops of insertMany in closed form\<close>

lemma placeholders_loop_eq:
  "placeholders_loop i n ps = ps @ replicate (n - i) ''?''"
proof (induction i n ps rule: placeholders_loop.induct)
  case (1 i n ps)
  show ?case
  proof (cases "i < n")
    case True
    then have step: "placeholders_loop i n ps = placeholders_loop (i + 1) n (ps @ [''?''])"
      by (subst placeholders_loop.simps) simp
    from True have "n - i = Suc (n - (i + 1))" by simp
    then have "replicate (n - i) ''?'' = ''?'' # replicate (n - (i + 1)) ''?''"
      by simp
    with step "1" [OF True] show ?thesis by simp
  next
    case False
    then show ?thesis by (subst placeholders_loop.simps) simp
  qed
qed

lemma join_replicate_Suc:
  "join sep (replicate (Suc k) x) = (if k = 0 then x else x @ sep @ join sep (replicate k x))"
  by (cases k) simp_all

lemma values_loop_eq:
  "values_loop i n vs sql =
     (if i < n then (if i > 0 then sql @ '', '' else sql) @ join '', '' (replicate (n - i) vs)
      else sql)"
proof (induction i n vs sql rule: values_loop.induct)
  case (1 i n vs sql)
  show ?case
  proof (cases "i < n")
    case True
    then have step: "values_loop i n vs sql =
        values_loop (i + 1) n vs ((if i > 0 then sql @ '', '' else sql) @ vs)"
      by (subst values_loop.simps) simp
    from True have d: "n - i = Suc (n - (i + 1))" by simp
    show ?thesis
      using True by (simp only: step "1" [OF True] d join_replicate_Suc) auto
  next
    case False
    then show ?thesis by (subst values_loop.simps) simp
  qed
qed

lemma values_loop_0: "values_loop 0 n vs sql = sql @ join '', '' (replicate n vs)"
  by (cases n) (simp_all add: values_loop_eq)

lemma js_concat_rows: "js_concat [] (map JArr rows) = concat rows"
  by (induction rows) (simp_all add: js_concat_def)

subsection \<open>The loop of updateOneObject in closed form\<close>

lemma collect_fields_eq:
  "collect_fields info keys (fs, vs) =
     (fs @ filter settable keys, vs @ map (get_field info) (filter settable keys))"
  by (induction keys arbitrary: fs vs) simp_all

lemma spread_scalar: "\<not> isArray v \<Longrightarrow> spread v = [v]"
  by (cases v) simp_all

subsection \<open>The keywords of the spec in lower case\<close>

lemma lower_case_keywords:
  "lower_case ''UPDATE'' = ''update''" "lower_case ''SET'' = ''set''"
  "lower_case ''WHERE'' = ''where''"
  by (simp_all add: lower_case_def lower_char_def)

subsection \<open>The paths through doTransaction\<close>

lemma doTransaction_raised:
  assumes "drv tr (conn this) ''BEGIN'' None = Resolved r0"
    and "fn this (tr @ [Query (conn this) ''BEGIN'' None]) = (out, tr2)"
    and "raised out = Some err"
  shows "doTransaction drv this fn tr = doTransaction_catch drv this err tr2"
proof (cases out)
  case (Inl e)
  with assms show ?thesis
    by (simp add: doTransaction_def doBegin_def conn_query_def)
next
  case (Inr p)
  with assms(3) have "p = Rejected err" by (cases p) simp_all
  with Inr assms(1,2) show ?thesis
    by (simp add: doTransaction_def doBegin_def conn_query_def)
qed

lemma doTransaction_resolved:
  assumes "drv tr (conn this) ''BEGIN'' None = Resolved r0"
    and "fn this (tr @ [Query (conn this) ''BEGIN'' None]) = (Inr (Resolved res), tr2)"
  shows "doTransaction drv this fn tr =
           (case drv tr2 (conn this) ''COMMIT'' None of
              Rejected err \<Rightarrow>
                doTransaction_catch drv this err (tr2 @ [Query (conn this) ''COMMIT'' None])
            | Resolved r \<Rightarrow> (Resolved res, tr2 @ [Query (conn this) ''COMMIT'' None]))"
  using assms
  by (simp add: doTransaction_def doBegin_def doCommit_def conn_query_def split: promise.splits)

lemma doTransaction_catch_trace:
  "snd (doTransaction_catch drv this err tr) = tr @ [Query (conn this) ''ROLLBACK'' None]"
  by (simp add: doTransaction_catch_def doRollback_def conn_query_def split: promise.splits)

lemma doTransaction_catch_outcome:
  "fst (doTransaction_catch drv this err tr) =
     (case drv tr (conn this) ''ROLLBACK'' None of
        Rejected e \<Rightarrow> Rejected e
      | Resolved r \<Rightarrow> if instanceof_RollbackError err then Resolved JUndefined else Rejected err)"
  by (simp add: doTransaction_catch_def doRollback_def conn_query_def split: promise.splits)

subsection \<open>Checking a session out\<close>

lemma Connection_new_trace:
  "Connection_new pooler tr = (Resolved c, tr1) \<Longrightarrow> tr1 = tr @ [Checkout (conn c)]"
  by (auto simp: Connection_new_def split: sum.splits promise.splits)

subsection \<open>The example unit of work\<close>

lemma touch_row_trace:
  "touch_row drv this tr =
     tr @ [Query (conn this) ''UPDATE t SET name = ? WHERE id = ?'' (Some [JStr ''n'', JNum 1])]"
  by (simp add: touch_row_def updateOne_def Let_def js_concat_def split_beta doUpdate_trace)

section \<open>Transactions\<close>

text \<open>
  Claim C1, as amended. Let \<open>BEGIN\<close> have succeeded, so that the unit of work is reached, and
  let the unit of work raise the sentinel: it throws an instance of \<^verbatim>\<open>RollbackError\<close>, or
  the promise it returns rejects with one. Then the trace \<open>doTransaction\<close> leaves is the
  trace \<open>tr2\<close> the unit of work left followed by one \<open>ROLLBACK\<close>: on top of what the
  unit of work sent itself, \<open>doTransaction\<close> sends exactly one \<open>ROLLBACK\<close> and no
  \<open>COMMIT\<close>. In particular, when the unit of work only added events \<open>evs\<close> with no
  \<open>ROLLBACK\<close> and no \<open>COMMIT\<close> of its own, the events of the whole transaction hold
  exactly one \<open>ROLLBACK\<close> and no \<open>COMMIT\<close>. When the driver accepts the \<open>ROLLBACK\<close>,
  \<open>doTransaction\<close> resolves with \<^verbatim>\<open>undefined\<close>: no value and no error, the sentinel is not
  raised again.
\<close>

theorem doTransaction_sentinel:
  assumes "drv tr (conn this) ''BEGIN'' None = Resolved r0"
    and "fn this (tr @ [Query (conn this) ''BEGIN'' None]) = (out, tr2)"
    and "raised out = Some err"
    and "instanceof_RollbackError err"
  shows "snd (doTransaction drv this fn tr) = tr2 @ [Query (conn this) ''ROLLBACK'' None]
         \<and> issued (conn this) ''ROLLBACK'' (snd (doTransaction drv this fn tr)) =
             issued (conn this) ''ROLLBACK'' tr2 + 1
         \<and> issued (conn this) ''COMMIT'' (snd (doTransaction drv this fn tr)) =
             issued (conn this) ''COMMIT'' tr2
         \<and> (tr2 = tr @ [Query (conn this) ''BEGIN'' None] @ evs
              \<and> issued (conn this) ''ROLLBACK'' evs = 0 \<and> issued (conn this) ''COMMIT'' evs = 0 \<longrightarrow>
               snd (doTransaction drv this fn tr) =
                 tr @ Query (conn this) ''BEGIN'' None # evs @ [Query (conn this) ''ROLLBACK'' None]
               \<and> issued (conn this) ''ROLLBACK''
                    (Query (conn this) ''BEGIN'' None # evs @ [Query (conn this) ''ROLLBACK'' None]) = 1
               \<and> issued (conn this) ''COMMIT''
                    (Query (conn this) ''BEGIN'' None # evs @ [Query (conn this) ''ROLLBACK'' None]) = 0)
         \<and> (drv tr2 (conn this) ''ROLLBACK'' None = Resolved r1 \<longrightarrow>
               fst (doTransaction drv this fn tr) = Resolved JUndefined)"
proof -
  have c: "doTransaction drv this fn tr = doTransaction_catch drv this err tr2"
    using doTransaction_raised [of drv tr this r0 fn out tr2 err] assms(1,2,3) by simp
  show ?thesis
    using assms(4)
    by (simp add: c doTransaction_catch_trace doTransaction_catch_outcome issued_snoc
        issued_transaction)
qed

text \<open>
  The theorem at a driver that accepts every statement and a unit of work that updates a
  row and then throws the sentinel.
\<close>

theorem doTransaction_sentinel_witness:
  "fst (doTransaction drv_ok (Connection 7) (work_abort drv_ok) []) = Resolved JUndefined
   \<and> snd (doTransaction drv_ok (Connection 7) (work_abort drv_ok) []) =
       [Query 7 ''BEGIN'' None,
        Query 7 ''UPDATE t SET name = ? WHERE id = ?'' (Some [JStr ''n'', JNum 1]),
        Query 7 ''ROLLBACK'' None]
   \<and> issued 7 ''ROLLBACK'' (snd (doTransaction drv_ok (Connection 7) (work_abort drv_ok) [])) = 1
   \<and> issued 7 ''COMMIT'' (snd (doTransaction drv_ok (Connection 7) (work_abort drv_ok) [])) = 0"
  using doTransaction_sentinel [of drv_ok "[]" "Connection 7" ok_result "work_abort drv_ok"
      "Inl (RollbackError ''abort'')" "touch_row drv_ok (Connection 7) [Query 7 ''BEGIN'' None]"
      "RollbackError ''abort''"
      "[Query 7 ''UPDATE t SET name = ? WHERE id = ?'' (Some [JStr ''n'', JNum 1])]" ok_result]
  by (simp add: drv_ok_def work_abort_def touch_row_trace issued_def)

text \<open>
  Claim C1 as it was stated fails when the \<open>ROLLBACK\<close> itself is rejected: the unit of work
  raises the sentinel, and \<open>doTransaction\<close> rejects with the error of the \<open>ROLLBACK\<close>
  instead of resolving (\<^verbatim>\<open>await this.doRollback()\<close> throws inside the \<^verbatim>\<open>catch\<close> block,
  before the \<^verbatim>\<open>instanceof\<close> test).
\<close>

theorem doTransaction_sentinel_rollback_fails:
  "raised (fst (work_abort drv_rollback_fails (Connection 7) [Query 7 ''BEGIN'' None])) =
     Some (RollbackError ''abort'')
   \<and> instanceof_RollbackError (RollbackError ''abort'')
   \<and> doTransaction drv_rollback_fails (Connection 7) (work_abort drv_rollback_fails) [] =
       (Rejected (Error ''Connection lost''),
        [Query 7 ''BEGIN'' None,
         Query 7 ''UPDATE t SET name = ? WHERE id = ?'' (Some [JStr ''n'', JNum 1]),
         Query 7 ''ROLLBACK'' None])"
  by (simp add: doTransaction_def doBegin_def doTransaction_catch_def doRollback_def
      conn_query_def drv_rollback_fails_def work_abort_def touch_row_trace)

text \<open>
  Claim C2, as amended. Let \<open>BEGIN\<close> have succeeded and let the unit of work raise an error
  that is not an instance of \<^verbatim>\<open>RollbackError\<close>. Then \<open>doTransaction\<close> sends exactly one
  \<open>ROLLBACK\<close>, right after the unit of work and before it looks at the error (the events
  of the whole transaction hold exactly one when the unit of work sent none itself), and,
  when the driver accepts that \<open>ROLLBACK\<close>, it rejects with the very error the unit of
  work raised.
\<close>

theorem doTransaction_failure:
  assumes "drv tr (conn this) ''BEGIN'' None = Resolved r0"
    and "fn this (tr @ [Query (conn this) ''BEGIN'' None]) = (out, tr2)"
    and "raised out = Some err"
    and "\<not> instanceof_RollbackError err"
  shows "snd (doTransaction drv this fn tr) = tr2 @ [Query (conn this) ''ROLLBACK'' None]
         \<and> issued (conn this) ''ROLLBACK'' (snd (doTransaction drv this fn tr)) =
             issued (conn this) ''ROLLBACK'' tr2 + 1
         \<and> (tr2 = tr @ [Query (conn this) ''BEGIN'' None] @ evs
              \<and> issued (conn this) ''ROLLBACK'' evs = 0 \<longrightarrow>
               snd (doTransaction drv this fn tr) =
                 tr @ Query (conn this) ''BEGIN'' None # evs @ [Query (conn this) ''ROLLBACK'' None]
               \<and> issued (conn this) ''ROLLBACK''
                    (Query (conn this) ''BEGIN'' None # evs @ [Query (conn this) ''ROLLBACK'' None]) = 1)
         \<and> (drv tr2 (conn this) ''ROLLBACK'' None = Resolved r1 \<longrightarrow>
               fst (doTransaction drv this fn tr) = Rejected err)"
proof -
  have c: "doTransaction drv this fn tr = doTransaction_catch drv this err tr2"
    using doTransaction_raised [of drv tr this r0 fn out tr2 err] assms(1,2,3) by simp
  show ?thesis
    using assms(4)
    by (simp add: c doTransaction_catch_trace doTransaction_catch_outcome issued_snoc
        issued_transaction)
qed

text \<open>
  The theorem at a driver that accepts every statement and a unit of work whose promise
  rejects with an ordinary error.
\<close>

theorem doTransaction_failure_witness:
  "fst (doTransaction drv_ok (Connection 7) (work_fail drv_ok) []) =
     Rejected (Error ''duplicate key'')
   \<and> snd (doTransaction drv_ok (Connection 7) (work_fail drv_ok) []) =
       [Query 7 ''BEGIN'' None,
        Query 7 ''UPDATE t SET name = ? WHERE id = ?'' (Some [JStr ''n'', JNum 1]),
        Query 7 ''ROLLBACK'' None]
   \<and> issued 7 ''ROLLBACK'' (snd (doTransaction drv_ok (Connection 7) (work_fail drv_ok) [])) = 1"
  using doTransaction_failure [of drv_ok "[]" "Connection 7" ok_result "work_fail drv_ok"
      "Inr (Rejected (Error ''duplicate key''))"
      "touch_row drv_ok (Connection 7) [Query 7 ''BEGIN'' None]"
      "Error ''duplicate key''"
      "[Query 7 ''UPDATE t SET name = ? WHERE id = ?'' (Some [JStr ''n'', JNum 1])]" ok_result]
  by (simp add: drv_ok_def work_fail_def touch_row_trace issued_def)

text \<open>
  Claim C2 as it was stated fails when the \<open>ROLLBACK\<close> itself is rejected: the caller
  then gets the error of the \<open>ROLLBACK\<close>, not the error the unit of work raised.
\<close>

theorem doTransaction_failure_rollback_fails:
  "raised (fst (work_fail drv_rollback_fails (Connection 7) [Query 7 ''BEGIN'' None])) =
     Some (Error ''duplicate key'')
   \<and> \<not> instanceof_RollbackError (Error ''duplicate key'')
   \<and> doTransaction drv_rollback_fails (Connection 7) (work_fail drv_rollback_fails) [] =
       (Rejected (Error ''Connection lost''),
        [Query 7 ''BEGIN'' None,
         Query 7 ''UPDATE t SET name = ? WHERE id = ?'' (Some [JStr ''n'', JNum 1]),
         Query 7 ''ROLLBACK'' None])"
  by (simp add: doTransaction_def doBegin_def doTransaction_catch_def doRollback_def
      conn_query_def drv_rollback_fails_def work_fail_def touch_row_trace)

text \<open>
  Claim C3, as amended. Let \<open>BEGIN\<close> have succeeded and let the unit of work resolve with
  \<open>res\<close>. Then \<open>doTransaction\<close> sends \<open>COMMIT\<close> exactly once. When the driver accepts that
  \<open>COMMIT\<close>, the trace is the trace of the unit of work followed by the \<open>COMMIT\<close>, no
  \<open>ROLLBACK\<close> is sent by \<open>doTransaction\<close> (the events of the whole transaction hold one
  \<open>COMMIT\<close> and no \<open>ROLLBACK\<close> when the unit of work sent none itself), and
  \<open>doTransaction\<close> resolves with \<open>res\<close>.
\<close>

theorem doTransaction_commit:
  assumes "drv tr (conn this) ''BEGIN'' None = Resolved r0"
    and "fn this (tr @ [Query (conn this) ''BEGIN'' None]) = (Inr (Resolved res), tr2)"
  shows "issued (conn this) ''COMMIT'' (snd (doTransaction drv this fn tr)) =
           issued (conn this) ''COMMIT'' tr2 + 1
         \<and> (drv tr2 (conn this) ''COMMIT'' None = Resolved r1 \<longrightarrow>
               doTransaction drv this fn tr =
                 (Resolved res, tr2 @ [Query (conn this) ''COMMIT'' None])
               \<and> issued (conn this) ''ROLLBACK'' (snd (doTransaction drv this fn tr)) =
                   issued (conn this) ''ROLLBACK'' tr2
               \<and> (tr2 = tr @ [Query (conn this) ''BEGIN'' None] @ evs
                    \<and> issued (conn this) ''ROLLBACK'' evs = 0
                    \<and> issued (conn this) ''COMMIT'' evs = 0 \<longrightarrow>
                     snd (doTransaction drv this fn tr) =
                       tr @ Query (conn this) ''BEGIN'' None # evs @
                         [Query (conn this) ''COMMIT'' None]
                     \<and> issued (conn this) ''COMMIT''
                          (Query (conn this) ''BEGIN'' None # evs @
                             [Query (conn this) ''COMMIT'' None]) = 1
                     \<and> issued (conn this) ''ROLLBACK''
                          (Query (conn this) ''BEGIN'' None # evs @
                             [Query (conn this) ''COMMIT'' None]) = 0))"
proof -
  note c = doTransaction_resolved [of drv tr this r0 fn res tr2, OF assms]
  show ?thesis
  proof (cases "drv tr2 (conn this) ''COMMIT'' None")
    case (Resolved r)
    with c show ?thesis by (simp add: issued_snoc issued_transaction)
  next
    case (Rejected e)
    with c show ?thesis by (simp add: doTransaction_catch_trace issued_def)
  qed
qed

text \<open>
  The theorem at a driver that accepts every statement and a unit of work that updates a
  row and resolves with 5.
\<close>

theorem doTransaction_commit_witness:
  "doTransaction drv_ok (Connection 7) (work_ok drv_ok) [] =
     (Resolved (JNum 5),
      [Query 7 ''BEGIN'' None,
       Query 7 ''UPDATE t SET name = ? WHERE id = ?'' (Some [JStr ''n'', JNum 1]),
       Query 7 ''COMMIT'' None])
   \<and> issued 7 ''COMMIT'' (snd (doTransaction drv_ok (Connection 7) (work_ok drv_ok) [])) = 1
   \<and> issued 7 ''ROLLBACK'' (snd (doTransaction drv_ok (Connection 7) (work_ok drv_ok) [])) = 0"
  using doTransaction_commit [of drv_ok "[]" "Connection 7" ok_result "work_ok drv_ok"
      "JNum 5" "touch_row drv_ok (Connection 7) [Query 7 ''BEGIN'' None]" ok_result
      "[Query 7 ''UPDATE t SET name = ? WHERE id = ?'' (Some [JStr ''n'', JNum 1])]"]
  by (simp add: drv_ok_def work_ok_def touch_row_trace issued_def)

text \<open>
  Claim C3 as it was stated fails when the \<open>COMMIT\<close> is rejected: \<^verbatim>\<open>await this.doCommit()\<close>
  stands inside the \<^verbatim>\<open>try\<close> block, so its error is caught, a \<open>ROLLBACK\<close> is sent although
  the unit of work completed normally, and the result of the unit of work is not
  returned.
\<close>

theorem doTransaction_commit_fails:
  "work_ok drv_commit_fails (Connection 7) [Query 7 ''BEGIN'' None] =
     (Inr (Resolved (JNum 5)),
      [Query 7 ''BEGIN'' None,
       Query 7 ''UPDATE t SET name = ? WHERE id = ?'' (Some [JStr ''n'', JNum 1])])
   \<and> doTransaction drv_commit_fails (Connection 7) (work_ok drv_commit_fails) [] =
       (Rejected (Error ''Connection lost''),
        [Query 7 ''BEGIN'' None,
         Query 7 ''UPDATE t SET name = ? WHERE id = ?'' (Some [JStr ''n'', JNum 1]),
         Query 7 ''COMMIT'' None,
         Query 7 ''ROLLBACK'' None])
   \<and> issued 7 ''ROLLBACK''
        (snd (doTransaction drv_commit_fails (Connection 7) (work_ok drv_commit_fails) [])) = 1"
  by (simp add: doTransaction_def doBegin_def doCommit_def doTransaction_catch_def doRollback_def
      conn_query_def drv_commit_fails_def work_ok_def touch_row_trace issued_def)

section \<open>Validation of updates\<close>

text \<open>
  Claim C4. The checks run in the order of the source. An empty field list makes
  \<open>updateOne\<close> and \<open>updateOneByFields\<close> throw the error \<^verbatim>\<open>no fields to update\<close> (the spec's
  \<open>NoFieldsToUpdate\<close>); with a field list that is not empty, a value list of another length
  makes both throw \<^verbatim>\<open>values.length !== fields.length\<close>, and, once these two agree, where
  lists of different lengths make \<open>updateOneByFields\<close> throw
  \<^verbatim>\<open>where values.length !== where fields.length\<close> (the spec's \<open>ArgumentCountMismatch\<close>).
  Where an empty field list comes with a value list that is not empty, the first check
  decides. In every one of these cases the call throws synchronously (the outcome is
  \<open>Inl\<close>, not a promise) and the trace is unchanged: nothing was sent to the driver.
\<close>

theorem update_validation:
  "(fields = [] \<longrightarrow>
      updateOne drv this table idv fields values tr = (Inl (Error ''no fields to update''), tr))
   \<and> (fields \<noteq> [] \<and> length values \<noteq> length fields \<longrightarrow>
      updateOne drv this table idv fields values tr =
        (Inl (Error ''values.length !== fields.length''), tr))
   \<and> (fields = [] \<longrightarrow>
      updateOneByFields drv this table fields values whereFields whereValues tr =
        (Inl (Error ''no fields to update''), tr))
   \<and> (fields \<noteq> [] \<and> length values \<noteq> length fields \<longrightarrow>
      updateOneByFields drv this table fields values whereFields whereValues tr =
        (Inl (Error ''values.length !== fields.length''), tr))
   \<and> (fields \<noteq> [] \<and> length values = length fields
        \<and> length whereValues \<noteq> length whereFields \<longrightarrow>
      updateOneByFields drv this table fields values whereFields whereValues tr =
        (Inl (Error ''where values.length !== where fields.length''), tr))
   \<and> (fields = [] \<or> length values \<noteq> length fields \<longrightarrow>
      isl (fst (updateOne drv this table idv fields values tr))
      \<and> snd (updateOne drv this table idv fields values tr) = tr)
   \<and> (fields = [] \<or> length values \<noteq> length fields
        \<or> length whereValues \<noteq> length whereFields \<longrightarrow>
      isl (fst (updateOneByFields drv this table fields values whereFields whereValues tr))
      \<and> snd (updateOneByFields drv this table fields values whereFields whereValues tr) = tr)"
  by (simp add: updateOne_def updateOneByFields_def)

text \<open>
  The theorem at an empty field list (with and without values), at two fields with one
  value, and at a where list without values.
\<close>

theorem update_validation_witness:
  "updateOne drv_ok (Connection 7) ''t'' (JNum 1) [] [] [] =
     (Inl (Error ''no fields to update''), [])
   \<and> updateOne drv_ok (Connection 7) ''t'' (JNum 1) [] [JNum 1] [] =
       (Inl (Error ''no fields to update''), [])
   \<and> updateOne drv_ok (Connection 7) ''t'' (JNum 1) [''a'', ''b''] [JNum 1] [] =
       (Inl (Error ''values.length !== fields.length''), [])
   \<and> updateOneByFields drv_ok (Connection 7) ''t'' [] [] [''w''] [JNum 3] [] =
       (Inl (Error ''no fields to update''), [])
   \<and> updateOneByFields drv_ok (Connection 7) ''t'' [''a'', ''b''] [JNum 1] [''w''] [JNum 3] [] =
       (Inl (Error ''values.length !== fields.length''), [])
   \<and> updateOneByFields drv_ok (Connection 7) ''t'' [''a''] [JNum 1] [''w''] [] [] =
       (Inl (Error ''where values.length !== where fields.length''), [])"
  using update_validation [of "[]" drv_ok "Connection 7" "''t''" "JNum 1" "[]" "[]"
      "[''w'']" "[JNum 3]"]
    update_validation [of "[]" drv_ok "Connection 7" "''t''" "JNum 1" "[JNum 1]" "[]"
      "[''w'']" "[JNum 3]"]
    update_validation [of "[''a'', ''b'']" drv_ok "Connection 7" "''t''" "JNum 1" "[JNum 1]" "[]"
      "[''w'']" "[JNum 3]"]
    update_validation [of "[''a'']" drv_ok "Connection 7" "''t''" "JNum 1" "[JNum 1]" "[]"
      "[''w'']" "[]"]
  by simp

section \<open>Generated statements\<close>

text \<open>
  Claim C5. For a table, a field list and rows \<open>rows\<close> (the JavaScript array of arrays
  \<open>map JArr rows\<close>), \<open>insertMany\<close> is one call of \<open>doInsert\<close> with the statement
  \<^verbatim>\<open>INSERT INTO T (f1, ..., fk) VALUES (?, ..., ?), ..., (?, ..., ?)\<close>, whose tuple of \<open>k\<close>
  placeholders is repeated once per row, and with the rows' values flattened in row order
  and, inside a row, in field order. It sends exactly this one statement, whatever the
  number of rows.
\<close>

theorem insertMany_statement:
  "(let tuple = ''('' @ join '', '' (replicate (length fields) ''?'') @ '')'';
        sql = ''INSERT INTO '' @ table @ '' ('' @ join '', '' fields @ '') VALUES '' @
                join '', '' (replicate (length rows) tuple);
        args = concat rows
    in insertMany drv this table fields (map JArr rows) tr = doInsert drv this sql args tr
       \<and> snd (insertMany drv this table fields (map JArr rows) tr) =
           tr @ [Query (conn this) sql (Some args)])"
  by (simp add: insertMany_def Let_def placeholders_loop_eq values_loop_0 js_concat_rows
      doInsert_trace)

text \<open>
  The theorem at the example of the spec: \<^verbatim>\<open>insertMany('t', ['a'], [[1],[2],[3]])\<close>.
\<close>

theorem insertMany_statement_witness:
  "insertMany drv_ok (Connection 7) ''t'' [''a'']
     [JArr [JNum 1], JArr [JNum 2], JArr [JNum 3]] [] =
     doInsert drv_ok (Connection 7) ''INSERT INTO t (a) VALUES (?), (?), (?)''
       [JNum 1, JNum 2, JNum 3] []
   \<and> snd (insertMany drv_ok (Connection 7) ''t'' [''a'']
          [JArr [JNum 1], JArr [JNum 2], JArr [JNum 3]] []) =
     [Query 7 ''INSERT INTO t (a) VALUES (?), (?), (?)'' (Some [JNum 1, JNum 2, JNum 3])]"
  using insertMany_statement [where fields = "[''a'']" and table = "''t''"
      and rows = "[[JNum 1], [JNum 2], [JNum 3]]" and drv = drv_ok and this = "Connection 7"
      and tr = "[]"]
  by (simp add: Let_def doInsert_trace)

text \<open>
  What \<open>updateOneObject\<close> sends for a record that has a key other than \<^verbatim>\<open>id\<close>,
  \<^verbatim>\<open>ctime\<close> and \<^verbatim>\<open>mtime\<close> and whose \<^verbatim>\<open>id\<close> value is not an array: one
  \<^verbatim>\<open>UPDATE T SET ... WHERE id = ?\<close> whose SET clause lists the record's own keys other than
  those three in the record's own key order, and whose arguments are the values of these
  keys followed by the value of \<^verbatim>\<open>info.id\<close> as the last argument.
\<close>

theorem updateOneObject_statement:
  assumes "filter settable (map fst (own info)) \<noteq> []"
    and "\<not> isArray (get_field info ''id'')"
  shows "(let fields = filter settable (map fst (own info));
              sql = ''UPDATE '' @ table @ '' SET '' @
                      join '', '' (map (\<lambda>field. field @ '' = ?'') fields) @ '' WHERE id = ?'';
              args = map (get_field info) fields @ [get_field info ''id'']
          in updateOneObject drv this table info tr =
               (Inr (fst (doUpdate drv this sql args tr)),
                tr @ [Query (conn this) sql (Some args)])
             \<and> ''id'' \<notin> set fields \<and> ''ctime'' \<notin> set fields \<and> ''mtime'' \<notin> set fields)"
  using assms
  by (simp add: updateOneObject_def collect_fields_eq updateOne_def Let_def js_concat_def
      spread_scalar split_beta doUpdate_trace settable_def)

text \<open>
  The theorem at the example of the spec:
  \<^verbatim>\<open>updateOneObject('t', {id: 5, ctime: X, mtime: Y, name: 'n'})\<close>.
\<close>

theorem updateOneObject_statement_witness:
  "snd (updateOneObject drv_ok (Connection 7) ''t''
          (Obj [(''id'', JNum 5), (''ctime'', JStr ''X''), (''mtime'', JStr ''Y''),
                (''name'', JStr ''n'')] []) []) =
     [Query 7 ''UPDATE t SET name = ? WHERE id = ?'' (Some [JStr ''n'', JNum 5])]"
  using updateOneObject_statement [where info = "Obj [(''id'', JNum 5), (''ctime'', JStr ''X''),
      (''mtime'', JStr ''Y''), (''name'', JStr ''n'')] []" and table = "''t''" and drv = drv_ok
      and this = "Connection 7" and tr = "[]"]
  by (simp add: Let_def settable_def get_field_def)

text \<open>
  \<^verbatim>\<open>info.id\<close> is read through the prototype chain: a record with the own key
  \<^verbatim>\<open>name\<close> that inherits \<^verbatim>\<open>id: 5\<close> is updated where \<^verbatim>\<open>id = 5\<close>.
\<close>

lemma updateOneObject_inherited_id:
  "snd (updateOneObject drv_ok (Connection 7) ''t''
          (Obj [(''name'', JStr ''n'')] [(''id'', JNum 5)]) []) =
     [Query 7 ''UPDATE t SET name = ? WHERE id = ?'' (Some [JStr ''n'', JNum 5])]"
  by (simp add: updateOneObject_def collect_fields_eq updateOne_def Let_def js_concat_def
      split_beta doUpdate_trace settable_def get_field_def)

text \<open>
  Claim C6 says that for every record the keys \<^verbatim>\<open>id\<close>, \<^verbatim>\<open>ctime\<close> and \<^verbatim>\<open>mtime\<close> stay
  out of the SET clause, the other keys appear in it in the record's own key order with
  their values as arguments, and the record's \<^verbatim>\<open>id\<close> value is appended as the final
  argument. The code breaks the last part on the record \<^verbatim>\<open>{id: [1, 2], name: 'n'}\<close>:
  \<^verbatim>\<open>values.concat(id)\<close> (line 186) spreads the array instead of appending it, so the
  statement with two placeholders is sent with the three arguments \<^verbatim>\<open>['n', 1, 2]\<close>, and
  not with \<^verbatim>\<open>['n', [1, 2]]\<close> as the claim has it.
\<close>

theorem updateOneObject_array_id:
  "snd (updateOneObject drv_ok (Connection 7) ''t''
          (Obj [(''id'', JArr [JNum 1, JNum 2]), (''name'', JStr ''n'')] []) []) =
     [Query 7 ''UPDATE t SET name = ? WHERE id = ?'' (Some [JStr ''n'', JNum 1, JNum 2])]
   \<and> snd (updateOneObject drv_ok (Connection 7) ''t''
          (Obj [(''id'', JArr [JNum 1, JNum 2]), (''name'', JStr ''n'')] []) []) \<noteq>
     [Query 7 ''UPDATE t SET name = ? WHERE id = ?''
        (Some [JStr ''n'', JArr [JNum 1, JNum 2]])]"
  by (simp add: updateOneObject_def collect_fields_eq updateOne_def Let_def js_concat_def
      split_beta doUpdate_trace settable_def get_field_def)

text \<open>
  Claim C7. For a field list that is not empty, a value list of the same length and where
  lists of equal length, \<open>updateOneByFields\<close> sends one statement, and its argument list
  is the set values followed by the where values, in order. The statement has the shape of
  the spec's table, \<^verbatim>\<open>UPDATE T SET f1 = ?, ... WHERE w1 = ? AND ...\<close>: it is that text with
  the three keywords spelled \<^verbatim>\<open>update\<close>, \<^verbatim>\<open>set\<close> and \<^verbatim>\<open>where\<close> as line 206 writes them
  (keywords of SQL are not case sensitive), and with the table, the fields, the
  placeholders and the separators \<^verbatim>\<open>, \<close> and \<^verbatim>\<open> AND \<close> exactly as in the table. With
  empty where lists the text ends after the keyword \<^verbatim>\<open>where\<close> and a blank.
\<close>

theorem updateOneByFields_statement:
  assumes "fields \<noteq> []"
    and "length values = length fields"
    and "length whereFields = length whereValues"
  shows "(let sql = ''update '' @ table @ '' set '' @
                      join '', '' (map (\<lambda>field. field @ '' = ?'') fields) @ '' where '' @
                      join '' AND '' (map (\<lambda>field. field @ '' = ?'') whereFields);
              args = values @ whereValues
          in updateOneByFields drv this table fields values whereFields whereValues tr =
               (Inr (fst (doUpdate drv this sql args tr)),
                tr @ [Query (conn this) sql (Some args)])
             \<and> sql = spec_update_by_fields_shape lower_case table fields whereFields)
         \<and> spec_update_by_fields_shape (\<lambda>kw. kw) table fields whereFields =
             ''UPDATE '' @ table @ '' SET '' @
               join '', '' (map (\<lambda>field. field @ '' = ?'') fields) @ '' WHERE '' @
               join '' AND '' (map (\<lambda>field. field @ '' = ?'') whereFields)"
  using assms
  by (simp add: updateOneByFields_def Let_def js_concat_def split_beta doUpdate_trace
      spec_update_by_fields_shape_def lower_case_keywords)

text \<open>
  The theorem at two set fields and two where fields.
\<close>

theorem updateOneByFields_statement_witness:
  "snd (updateOneByFields drv_ok (Connection 7) ''t'' [''a'', ''b''] [JNum 1, JNum 2]
          [''c'', ''d''] [JNum 3, JNum 4] []) =
     [Query 7 ''update t set a = ?, b = ? where c = ? AND d = ?''
        (Some [JNum 1, JNum 2, JNum 3, JNum 4])]
   \<and> ''update t set a = ?, b = ? where c = ? AND d = ?'' =
       spec_update_by_fields_shape lower_case ''t'' [''a'', ''b''] [''c'', ''d'']
   \<and> spec_update_by_fields_shape (\<lambda>kw. kw) ''t'' [''a'', ''b''] [''c'', ''d''] =
       ''UPDATE t SET a = ?, b = ? WHERE c = ? AND d = ?''"
  using updateOneByFields_statement [of "[''a'', ''b'']" "[JNum 1, JNum 2]" "[''c'', ''d'']"
      "[JNum 3, JNum 4]" "''t''" drv_ok "Connection 7" "[]"]
  by (simp add: Let_def)

section \<open>Scoped acquisition\<close>

text \<open>
  Claim C8, as amended. Once \<^verbatim>\<open>Connection.new\<close> has checked a session out of the pool, a call of the
  function wrapped by \<open>withConnection\<close> leaves the trace of the inner function followed by
  exactly one release of that session, whatever the outcome \<open>out\<close> of the inner function:
  a returned promise that resolves, a returned promise that rejects, or a synchronous
  throw. The wrapper adds one release to those the inner function made itself, never none
  and never two, and passes the outcome on. When the inner function only added events
  \<open>evs\<close> and did not release the session itself, the events of the whole call are the
  checkout, \<open>evs\<close> and one release: the session is released exactly once.
\<close>

theorem withConnection_releases_once:
  assumes "Connection_new (Pooler dbc) tr = (Resolved c, tr1)"
    and "fn c args tr1 = (out, tr2)"
  shows "withConnection dbc fn args tr =
           (case out of Inl e \<Rightarrow> Rejected e | Inr p \<Rightarrow> p, tr2 @ [Release (conn c)])
         \<and> releases (conn c) (snd (withConnection dbc fn args tr)) = Suc (releases (conn c) tr2)
         \<and> (tr2 = tr1 @ evs \<and> releases (conn c) evs = 0 \<longrightarrow>
               snd (withConnection dbc fn args tr) =
                 tr @ [Checkout (conn c)] @ evs @ [Release (conn c)]
               \<and> releases (conn c) ([Checkout (conn c)] @ evs @ [Release (conn c)]) = 1)"
proof -
  have w: "withConnection dbc fn args tr =
      (case out of Inl e \<Rightarrow> Rejected e | Inr p \<Rightarrow> p, tr2 @ [Release (conn c)])"
    using assms by (simp add: withConnection_def run_def release_def)
  have t: "tr1 = tr @ [Checkout (conn c)]"
    using assms(1) by (rule Connection_new_trace)
  have r: "releases (conn c) (Checkout (conn c) # evs @ [Release (conn c)]) =
      Suc (releases (conn c) evs)"
    by (simp add: releases_def)
  show ?thesis
    by (simp add: w t r releases_snoc)
qed

text \<open>
  The theorem on each of the three ways out: the session is released once.
\<close>

theorem withConnection_releases_once_witness:
  "withConnection (Dbc (Some pool_7)) fn_resolves [] [] =
     (Resolved (JNum 5),
      [Checkout 7,
       Query 7 ''UPDATE t SET name = ? WHERE id = ?'' (Some [JStr ''n'', JNum 1]),
       Release 7])
   \<and> releases 7 (snd (withConnection (Dbc (Some pool_7)) fn_resolves [] [])) = 1
   \<and> withConnection (Dbc (Some pool_7)) fn_rejects [] [] =
       (Rejected (Error ''duplicate key''),
        [Checkout 7,
         Query 7 ''UPDATE t SET name = ? WHERE id = ?'' (Some [JStr ''n'', JNum 1]),
         Release 7])
   \<and> releases 7 (snd (withConnection (Dbc (Some pool_7)) fn_rejects [] [])) = 1
   \<and> withConnection (Dbc (Some pool_7)) fn_throws [] [] =
       (Rejected TypeError, [Checkout 7, Release 7])
   \<and> releases 7 (snd (withConnection (Dbc (Some pool_7)) fn_throws [] [])) = 1"
  using withConnection_releases_once [where dbc = "Dbc (Some pool_7)" and tr = "[]"
      and c = "Connection 7" and ?tr1.0 = "[Checkout 7]" and fn = fn_resolves and args = "[]"
      and out = "Inr (Resolved (JNum 5))"
      and ?tr2.0 = "touch_row drv_ok (Connection 7) [Checkout 7]"
      and evs = "[Query 7 ''UPDATE t SET name = ? WHERE id = ?'' (Some [JStr ''n'', JNum 1])]"]
    withConnection_releases_once [where dbc = "Dbc (Some pool_7)" and tr = "[]"
      and c = "Connection 7" and ?tr1.0 = "[Checkout 7]" and fn = fn_rejects and args = "[]"
      and out = "Inr (Rejected (Error ''duplicate key''))"
      and ?tr2.0 = "touch_row drv_ok (Connection 7) [Checkout 7]"
      and evs = "[Query 7 ''UPDATE t SET name = ? WHERE id = ?'' (Some [JStr ''n'', JNum 1])]"]
    withConnection_releases_once [where dbc = "Dbc (Some pool_7)" and tr = "[]"
      and c = "Connection 7" and ?tr1.0 = "[Checkout 7]" and fn = fn_throws and args = "[]"
      and out = "Inl TypeError" and ?tr2.0 = "[Checkout 7]" and evs = "[]"]
  by (simp add: Connection_new_def getPool_def pool_7_def fn_resolves_def fn_rejects_def
      fn_throws_def touch_row_trace releases_def)

text \<open>
  Claim C8 as it was stated fails for an inner function that calls \<^verbatim>\<open>this.release()\<close>
  itself: the session was checked out once and is released twice, once by the inner
  function and once by the \<^verbatim>\<open>finally\<close> block of \<^verbatim>\<open>run\<close>, which does not know of the
  first release.
\<close>

theorem withConnection_double_release:
  "Connection_new (Pooler (Dbc (Some pool_7))) [] = (Resolved (Connection 7), [Checkout 7])
   \<and> withConnection (Dbc (Some pool_7)) fn_releases [] [] =
       (Resolved JUndefined, [Checkout 7, Release 7, Release 7])
   \<and> releases 7 (snd (withConnection (Dbc (Some pool_7)) fn_releases [] [])) = 2"
  by (simp add: withConnection_def run_def Connection_new_def getPool_def pool_7_def
      fn_releases_def release_def releases_def)

section \<open>Records without fields to write\<close>

text \<open>
  Claim C9. \<open>insertManyObjects\<close> with an empty list of records throws synchronously (the
  \<^verbatim>\<open>TypeError\<close> of \<^verbatim>\<open>Reflect.ownKeys(undefined)\<close>) and leaves the trace unchanged: no statement
  is built or sent.
\<close>

theorem insertManyObjects_empty:
  "insertManyObjects drv this table [] tr = (Inl TypeError, tr)"
  by (simp add: insertManyObjects_def)

text \<open>
  The theorem at a concrete driver and table.
\<close>

theorem insertManyObjects_empty_witness:
  "insertManyObjects drv_ok (Connection 7) ''t'' [] [] = (Inl TypeError, [])"
  using insertManyObjects_empty [of drv_ok "Connection 7" "''t''" "[]"]
  by simp

text \<open>
  Claim C10. When every key of the record is one of \<^verbatim>\<open>id\<close>, \<^verbatim>\<open>ctime\<close> and \<^verbatim>\<open>mtime\<close>,
  \<open>updateOneObject\<close> throws \<^verbatim>\<open>no fields to update\<close> synchronously and sends nothing, also
  when the record is not empty.
\<close>

theorem updateOneObject_no_fields:
  assumes "\<forall>key \<in> set (map fst (own info)). key = ''id'' \<or> key = ''ctime'' \<or> key = ''mtime''"
  shows "updateOneObject drv this table info tr = (Inl (Error ''no fields to update''), tr)"
proof -
  from assms have "filter settable (map fst (own info)) = []"
    by (auto simp: filter_empty_conv settable_def)
  then show ?thesis
    by (simp add: updateOneObject_def collect_fields_eq updateOne_def)
qed

text \<open>
  The theorem at the record \<^verbatim>\<open>{id: 5, ctime: X, mtime: Y}\<close>.
\<close>

theorem updateOneObject_no_fields_witness:
  "updateOneObject drv_ok (Connection 7) ''t''
     (Obj [(''id'', JNum 5), (''ctime'', JStr ''X''), (''mtime'', JStr ''Y'')] []) [] =
     (Inl (Error ''no fields to update''), [])"
  using updateOneObject_no_fields [where info = "Obj [(''id'', JNum 5), (''ctime'', JStr ''X''),
      (''mtime'', JStr ''Y'')] []" and drv = drv_ok and this = "Connection 7" and table = "''t''"
      and tr = "[]"]
  by simp

end
